theory Spec2Isabelle
  imports Main
begin

section \<open>JavaScript values\<close>

text \<open>
  The values that reach the FastCast module: message payloads (JSON data), arguments of
  the public operations, and references to functions of the hosting application.
  Numbers are modelled as integers (the integral doubles below \<open>2^53\<close>, where double
  arithmetic is exact); a function is an opaque reference. Objects keep their own
  properties in insertion order. The conversions the language itself performs on these
  values (\<open>parseInt\<close>, ToString, \<open>JSON.parse\<close>) are not re-implemented: they are taken
  from the surroundings.
\<close>

datatype jsval =
    JUndefined
  | JNull
  | JBool bool
  | JNum int
  | JStr string
  | JArr "jsval list"
  | JObj "(string \<times> jsval) list"
  | JFun nat

datatype exn = TypeError | ReferenceError

text \<open>\<open>typeof v\<close>.\<close>

fun typeof :: "jsval \<Rightarrow> string" where
  "typeof JUndefined = ''undefined''"
| "typeof JNull = ''object''"
| "typeof (JBool b) = ''boolean''"
| "typeof (JNum n) = ''number''"
| "typeof (JStr s) = ''string''"
| "typeof (JArr xs) = ''object''"
| "typeof (JObj fs) = ''object''"
| "typeof (JFun k) = ''function''"

text \<open>ToBoolean: what \<open>if (v)\<close> and \<open>!v\<close> test.\<close>

fun truthy :: "jsval \<Rightarrow> bool" where
  "truthy JUndefined = False"
| "truthy JNull = False"
| "truthy (JBool b) = b"
| "truthy (JNum n) = (n \<noteq> 0)"
| "truthy (JStr s) = (s \<noteq> [])"
| "truthy (JArr xs) = True"
| "truthy (JObj fs) = True"
| "truthy (JFun k) = True"

text \<open>
  Property read \<open>v.k\<close>, for the property names the module reads (\<open>keycode\<close>,
  \<open>value\<close>, \<open>position\<close>, \<open>videoId\<close>, \<open>data\<close>, \<open>name\<close>, \<open>dispatchEvent\<close>,
  \<open>fireEvent\<close>): a plain object inherits none of them, so an object yields its own
  property or \<open>undefined\<close>, a primitive, an array or a function yields \<open>undefined\<close>, and
  \<open>null\<close> and \<open>undefined\<close> raise a TypeError.
\<close>

fun js_get :: "jsval \<Rightarrow> string \<Rightarrow> exn + jsval" where
  "js_get JUndefined k = Inl TypeError"
| "js_get JNull k = Inl TypeError"
| "js_get (JObj fs) k = Inr (case map_of fs k of None \<Rightarrow> JUndefined | Some v \<Rightarrow> v)"
| "js_get v k = Inr JUndefined"

text \<open>Property write \<open>o.k = v\<close> on an object's own properties.\<close>

fun obj_set :: "(string \<times> jsval) list \<Rightarrow> string \<Rightarrow> jsval \<Rightarrow> (string \<times> jsval) list" where
  "obj_set [] k v = [(k, v)]"
| "obj_set ((k', v') # fs) k v = (if k' = k then (k, v) # fs else (k', v') # obj_set fs k v)"

subsection \<open>The numbers parseInt returns\<close>

text \<open>
  \<open>parseInt\<close> returns NaN, an integral number or an infinity (a digit string too long for
  a double). A finite result is kept as the integer it denotes; the sign of a zero, which
  neither \<open>< 0\<close> nor \<open>Math.abs\<close> lets through, is dropped.
\<close>

datatype number = NaN | Finite int | PosInfinity | NegInfinity

text \<open>\<open>isNaN(x)\<close>, \<open>x < 0\<close> and \<open>Math.abs(x)\<close>.\<close>

fun num_isNaN :: "number \<Rightarrow> bool" where
  "num_isNaN NaN = True"
| "num_isNaN (Finite n) = False"
| "num_isNaN PosInfinity = False"
| "num_isNaN NegInfinity = False"

fun num_negative :: "number \<Rightarrow> bool" where
  "num_negative NaN = False"
| "num_negative (Finite n) = (n < 0)"
| "num_negative PosInfinity = False"
| "num_negative NegInfinity = True"

fun num_abs :: "number \<Rightarrow> number" where
  "num_abs NaN = NaN"
| "num_abs (Finite n) = Finite \<bar>n\<bar>"
| "num_abs PosInfinity = PosInfinity"
| "num_abs NegInfinity = PosInfinity"

section \<open>Clients, the channel object and the module state\<close>

record client =
  client_id :: string
  isHost :: bool
  attributes :: jsval
  connectTime :: int

text \<open>The SDK's channel object, as far as the module reads it.\<close>

record chan =
  clients :: "client list"
  isConnected :: bool

text \<open>
  The built-in handlers of \<open>eventCallbacks\<close>, the functions the module binds on the
  channel, and every call the module makes on a collaborator (the channel, the document,
  the platform, the console, a function of the hosting application).
  \<open>DocumentDispatch name detail\<close> is \<open>document.dispatchEvent\<close> of a CustomEvent with that
  name and detail; \<open>DocumentDispatchVolume volume isMute\<close> is the one for \<open>ms2:volume\<close>,
  whose detail \<open>{volume, isMute}\<close> holds a number as \<open>parseInt\<close> returns it.
\<close>

datatype builtin = OnKeydown | OnSeek | OnVolume | OnPlay | OnReclaim

datatype handler =
    Dispatch string
  | OnClientConnect
  | OnClientDisconnect
  | OnConnect
  | OnDisconnect
  | UserHandler jsval
  | LoggingNoop jsval

datatype target = ActiveElement | Bus jsval

datatype effect =
    Publish "jsval list"
  | Emit string client
  | ChannelOn jsval handler
  | ChannelConnect jsval
  | ChannelDisconnect
  | MsfLocal jsval jsval
  | DocumentDispatch string jsval
  | DocumentDispatchVolume number bool
  | Keydown target jsval
  | SetVolume number
  | SetMute bool
  | AddVisibilityListener
  | CallClientCallback nat client
  | CallCallback nat
  | Console string

text \<open>
  What the module reads from its surroundings: the built-ins \<open>JSON.parse\<close> (\<open>None\<close>
  when it throws), \<open>JSON.stringify\<close>, \<open>parseInt(v, 10)\<close> and ToString (either may raise,
  as for an object whose own \<open>toString\<close> is not callable), the members every plain object
  inherits from \<open>Object.prototype\<close> (\<open>undefined\<close> for a name it has not), the value a
  function of the hosting application returns for a client, and the platform's getters.
\<close>

record env =
  JSON_parse :: "string \<Rightarrow> jsval option"
  JSON_stringify :: "jsval \<Rightarrow> jsval"
  parseInt10 :: "jsval \<Rightarrow> exn + number"
  ToString :: "jsval \<Rightarrow> exn + string"
  Object_prototype :: "string \<Rightarrow> jsval"
  call_function :: "nat \<Rightarrow> client \<Rightarrow> jsval"
  msf_loaded :: bool
  getVolume :: int
  isMute :: bool
  avplay_getState :: jsval
  avplay_getCurrentTime :: jsval
  avplay_getDuration :: jsval

text \<open>
  The variables of the module closure. \<open>keycode\<close> is the variable that \<open>onKeydown\<close>
  assigns without declaring it: \<open>None\<close> until the first assignment.
\<close>

record state =
  channel :: "chan option"
  eventBus :: jsval
  tvKeys :: "(string \<times> jsval) list"
  keycode :: "jsval option"
  videoId :: jsval
  clientCallbacks :: "(string \<times> jsval) list"
  maxClients :: int
  forbiddenClients :: "string list"
  allowingAllClients :: bool

definition ownName :: string where
  "ownName = ''TV''"

definition eventCallbacks :: "(string \<times> builtin) list" where
  "eventCallbacks =
     [(''keydown'', OnKeydown), (''seek'', OnSeek), (''volume'', OnVolume),
      (''play'', OnPlay), (''reclaim'', OnReclaim)]"

definition errors :: "(string \<times> int) list" where
  "errors = [(''Not connected'', 500), (''Seek failed'', 500), (''No such stream'', 404)]"

text \<open>
  The state after the module body has run: the five seeded keys, extended with the keys
  \<open>tizen.tvinputdevice.getSupportedKeys()\<close> reports.
\<close>

definition initial_state :: "(string \<times> int) list \<Rightarrow> state" where
  "initial_state supportedKeys =
     \<lparr> channel = None,
       eventBus = JNull,
       tvKeys = foldl (\<lambda>ks el. obj_set ks (fst el) (JNum (snd el)))
                  [(''ArrowDown'', JNum 40), (''ArrowUp'', JNum 38), (''ArrowLeft'', JNum 37),
                   (''ArrowRight'', JNum 39), (''Enter'', JNum 13)]
                  supportedKeys,
       keycode = None,
       videoId = JNum (- 1),
       clientCallbacks = [],
       maxClients = 2,
       forbiddenClients = [],
       allowingAllClients = False \<rparr>"

subsection \<open>Results\<close>

text \<open>
  A function of the module returns the state it leaves, the calls it made in order, and
  whether it returned a value or threw; what happened before a throw is kept.
\<close>

datatype outcome = Returned jsval | Threw exn

type_synonym result = "state \<times> effect list \<times> outcome"

definition andThen :: "result \<Rightarrow> (state \<Rightarrow> result) \<Rightarrow> result" where
  "andThen r f =
     (case r of
        (st, es, Threw e) \<Rightarrow> (st, es, Threw e)
      | (st, es, Returned v) \<Rightarrow> (case f st of (st', es', out) \<Rightarrow> (st', es @ es', out)))"

definition own_prop :: "(string \<times> jsval) list \<Rightarrow> string \<Rightarrow> jsval" where
  "own_prop fs k = (case map_of fs k of None \<Rightarrow> JUndefined | Some v \<Rightarrow> v)"

text \<open>\<open>xs.indexOf(x)\<close> and \<open>xs.splice(i, 1)\<close>.\<close>

fun indexOf :: "'a list \<Rightarrow> 'a \<Rightarrow> int" where
  "indexOf [] x = - 1"
| "indexOf (y # ys) x = (if y = x then 0 else (if indexOf ys x < 0 then - 1 else indexOf ys x + 1))"

definition splice1 :: "'a list \<Rightarrow> int \<Rightarrow> 'a list" where
  "splice1 xs i = take (nat i) xs @ drop (nat i + 1) xs"

section \<open>The functions of the module\<close>

text \<open>\<open>send\<close>: \<open>channel.publish.apply(channel, arguments)\<close>; a null channel raises.\<close>

definition send :: "state \<Rightarrow> jsval list \<Rightarrow> result" where
  "send st args =
     (case channel st of
        None \<Rightarrow> (st, [], Threw TypeError)
      | Some ch \<Rightarrow> (st, [Publish args], Returned JUndefined))"

fun error :: "state \<Rightarrow> jsval \<Rightarrow> result" where
  "error st (JStr s) = send st [JStr ''error'', JObj [(''message'', JStr s), (''code'', JNum 9999)]]"
| "error st (JNum n) =
     (if 0 \<le> n \<and> n < int (length errors)
      then send st [JStr ''error'',
                    JObj [(''message'', JStr (fst (errors ! nat n))),
                          (''code'', JNum (snd (errors ! nat n)))]]
      else (st, [], Threw TypeError))"
| "error st v = send st [JStr ''error'', v]"

text \<open>
  \<open>sendKeydownEvent\<close>: the event goes to the event bus, or to the focused element when
  the bus is null, through \<open>dispatchEvent\<close> if the target has one and \<open>fireEvent\<close>
  otherwise.
\<close>

definition sendKeydownEvent :: "state \<Rightarrow> jsval \<Rightarrow> result" where
  "sendKeydownEvent st keyCode =
     (if eventBus st \<noteq> JNull
      then (case js_get (eventBus st) ''dispatchEvent'' of
              Inl e \<Rightarrow> (st, [], Threw e)
            | Inr f \<Rightarrow>
                if truthy f
                then (if typeof f = ''function''
                      then (st, [Keydown (Bus (eventBus st)) keyCode], Returned JUndefined)
                      else (st, [], Threw TypeError))
                else (case js_get (eventBus st) ''fireEvent'' of
                        Inl e \<Rightarrow> (st, [], Threw e)
                      | Inr g \<Rightarrow>
                          if typeof g = ''function''
                          then (st, [Keydown (Bus (eventBus st)) keyCode], Returned JUndefined)
                          else (st, [], Threw TypeError)))
      else (st, [Keydown ActiveElement keyCode], Returned JUndefined))"

definition isClientAllowed :: "state \<Rightarrow> client \<Rightarrow> bool" where
  "isClientAllowed st c = (if indexOf (forbiddenClients st) (client_id c) < 0 then True else False)"

text \<open>The loop of \<open>onChannelConnect\<close> over the copy of \<open>channel.clients\<close>.\<close>

fun announce :: "client list \<Rightarrow> effect list" where
  "announce [] = []"
| "announce (c # cs) = (if isHost c then announce cs else Emit ''clientConnect'' c # announce cs)"

definition onChannelConnect :: "state \<Rightarrow> jsval \<Rightarrow> result" where
  "onChannelConnect st err =
     (if truthy err then (st, [Console ''error''], Returned JUndefined)
      else (case channel st of
              None \<Rightarrow> (st, [], Threw TypeError)
            | Some ch \<Rightarrow>
                andThen (st, announce (clients ch), Returned JUndefined)
                  (\<lambda>st. send st [JStr ''ready''])))"

text \<open>
  A call of a callback the hosting application registered for \<open>connect\<close> or
  \<open>disconnect\<close>: made only when the registered value is a function.
\<close>

definition callClientCallback :: "env \<Rightarrow> state \<Rightarrow> string \<Rightarrow> client \<Rightarrow> effect list \<times> jsval" where
  "callClientCallback e st name c =
     (case own_prop (clientCallbacks st) name of
        JFun k \<Rightarrow> ([CallClientCallback k c], call_function e k c)
      | _ \<Rightarrow> ([], JUndefined))"

definition onClientDisconnect :: "env \<Rightarrow> state \<Rightarrow> client \<Rightarrow> result" where
  "onClientDisconnect e st c =
     (case channel st of
        None \<Rightarrow> (st, [], Threw TypeError)
      | Some ch \<Rightarrow>
          (let st1 = (if int (length (clients ch)) \<le> maxClients st
                      then st\<lparr>forbiddenClients := []\<rparr> else st)
           in (st1, fst (callClientCallback e st1 ''disconnect'' c), Returned JUndefined)))"

definition raiseError :: "state \<Rightarrow> int \<Rightarrow> string \<Rightarrow> result" where
  "raiseError st code clientId =
     send st [JStr ''error'',
              JObj [(''message'',
                     (if code = 403 then JStr ''Access denied''
                      else if code = 500 then JStr ''Internal error'' else JUndefined)),
                    (''code'', JNum code)],
              JStr clientId]"

definition onClientConnect :: "env \<Rightarrow> state \<Rightarrow> client \<Rightarrow> result" where
  "onClientConnect e st c =
     andThen (send st [JStr ''ready''])
       (\<lambda>st. case channel st of
          None \<Rightarrow> (st, [], Threw TypeError)
        | Some ch \<Rightarrow>
            if int (length (clients ch)) > maxClients st
            then andThen (raiseError st 403 (client_id c))
                   (\<lambda>st. (st\<lparr>forbiddenClients := forbiddenClients st @ [client_id c]\<rparr>,
                           [], Returned JUndefined))
            else (let i = indexOf (forbiddenClients st) (client_id c);
                      st1 = (if i > - 1
                             then st\<lparr>forbiddenClients := splice1 (forbiddenClients st) i\<rparr>
                             else st);
                      call = callClientCallback e st1 ''connect'' c;
                      st2 = (if truthy (snd call) then st1\<lparr>videoId := snd call\<rparr> else st1)
                  in (st2, fst call, Returned JUndefined)))"

subsection \<open>The protocol message handlers\<close>

text \<open>
  The read \<open>tvKeys[k]\<close>: the key is \<open>k\<close> itself when it is a string and its ToString
  otherwise, and the value is the own property of \<open>tvKeys\<close> or else the inherited member.
\<close>

definition tvKeys_get :: "env \<Rightarrow> state \<Rightarrow> jsval \<Rightarrow> exn + jsval" where
  "tvKeys_get e st k =
     (case (case k of JStr s \<Rightarrow> Inr s | _ \<Rightarrow> ToString e k) of
        Inl x \<Rightarrow> Inl x
      | Inr key \<Rightarrow>
          Inr (case map_of (tvKeys st) key of
                 None \<Rightarrow> Object_prototype e key
               | Some v \<Rightarrow> v))"

definition onKeydown :: "env \<Rightarrow> state \<Rightarrow> jsval \<Rightarrow> result" where
  "onKeydown e st parsed =
     (case js_get parsed ''keycode'' of
        Inl x \<Rightarrow> (st, [], Threw x)
      | Inr kc \<Rightarrow>
          if truthy kc
          then (case tvKeys_get e st kc of
                  Inl x \<Rightarrow> (st, [], Threw x)
                | Inr tk \<Rightarrow>
                    (let st1 = (if truthy tk then st\<lparr>keycode := Some tk\<rparr>
                                else if typeof kc = ''number'' then st\<lparr>keycode := Some kc\<rparr>
                                else st)
                     in case keycode st1 of
                          None \<Rightarrow> (st1, [], Threw ReferenceError)
                        | Some k \<Rightarrow> sendKeydownEvent st1 k))
          else (st, [], Returned JUndefined))"

text \<open>
  \<open>onVolume\<close> keeps its event in an undeclared variable that nothing reads; only its
  calls are modelled.
\<close>

definition onVolume :: "env \<Rightarrow> state \<Rightarrow> jsval \<Rightarrow> result" where
  "onVolume e st parsed =
     (case js_get parsed ''value'' of
        Inl x \<Rightarrow> (st, [], Threw x)
      | Inr v \<Rightarrow>
          (case parseInt10 e v of
             Inl x \<Rightarrow> (st, [], Threw x)
           | Inr volume \<Rightarrow>
               if \<not> num_isNaN volume
               then (let isMute = (if num_negative volume then True else False);
                         volume = num_abs volume
                     in (st,
                         [SetVolume volume, SetMute isMute, DocumentDispatchVolume volume isMute],
                         Returned JUndefined))
               else (st, [], Returned JUndefined)))"

definition onSeek :: "state \<Rightarrow> jsval \<Rightarrow> result" where
  "onSeek st parsed =
     (case js_get parsed ''position'' of
        Inl e \<Rightarrow> (st, [], Threw e)
      | Inr position \<Rightarrow>
          if truthy position
          then (st, [DocumentDispatch ''ms2:seek'' (JObj [(''position'', position)])],
                Returned JUndefined)
          else (st, [], Returned JUndefined))"

definition onPlay :: "state \<Rightarrow> jsval \<Rightarrow> result" where
  "onPlay st parsed =
     (case js_get parsed ''videoId'' of
        Inl e \<Rightarrow> (st, [], Threw e)
      | Inr vid \<Rightarrow>
          if truthy vid
          then (case (js_get parsed ''position'', js_get parsed ''data'') of
                  (Inr position, Inr data) \<Rightarrow>
                    (let detail = [(''videoId'', vid), (''position'', position)];
                         detail = (if truthy data then obj_set detail ''data'' data else detail)
                     in (st\<lparr>videoId := vid\<rparr>, [DocumentDispatch ''ms2:play'' (JObj detail)],
                         Returned JUndefined))
                | _ \<Rightarrow> (st\<lparr>videoId := vid\<rparr>, [], Threw TypeError))
          else (st, [], Returned JUndefined))"

definition onReclaim :: "state \<Rightarrow> jsval \<Rightarrow> result" where
  "onReclaim st parsed = (st, [DocumentDispatch ''ms2:reclaim'' JNull], Returned JUndefined)"

fun call_builtin :: "env \<Rightarrow> builtin \<Rightarrow> state \<Rightarrow> jsval \<Rightarrow> result" where
  "call_builtin e OnKeydown st parsed = onKeydown e st parsed"
| "call_builtin e OnSeek st parsed = onSeek st parsed"
| "call_builtin e OnVolume st parsed = onVolume e st parsed"
| "call_builtin e OnPlay st parsed = onPlay st parsed"
| "call_builtin e OnReclaim st parsed = onReclaim st parsed"

text \<open>
  The payload a handler receives: \<open>parsed\<close> starts as null, a string is given to
  \<open>JSON.parse\<close> and a throw there is caught and ignored, anything else is passed as it is.
\<close>

definition parse_payload :: "env \<Rightarrow> jsval \<Rightarrow> jsval" where
  "parse_payload e obj =
     (case obj of
        JStr s \<Rightarrow> (case JSON_parse e s of None \<Rightarrow> JNull | Some v \<Rightarrow> v)
      | _ \<Rightarrow> obj)"

text \<open>\<open>dispatch(event)\<close>, applied to a message \<open>(obj, client)\<close>.\<close>

definition dispatch :: "env \<Rightarrow> string \<Rightarrow> state \<Rightarrow> jsval \<Rightarrow> client \<Rightarrow> result" where
  "dispatch e event st obj c =
     (case map_of eventCallbacks event of
        None \<Rightarrow> andThen (raiseError st 500 (client_id c)) (\<lambda>st. (st, [], Returned (JBool False)))
      | Some h \<Rightarrow>
          if \<not> isClientAllowed st c \<and> \<not> allowingAllClients st
          then andThen (raiseError st 403 (client_id c)) (\<lambda>st. (st, [], Returned (JBool False)))
          else andThen (call_builtin e h st (parse_payload e obj))
                 (\<lambda>st. (st, [], Returned JUndefined)))"

subsection \<open>Connecting\<close>

text \<open>
  The options \<open>connect\<close> passes on: an object argument itself, with \<open>name\<close> set to the own
  name when it has no truthy one (reading \<open>name\<close> of null raises; a name written on an
  array is not represented), and \<open>{name: ownName}\<close> for any other argument.
\<close>

definition connect_options :: "jsval \<Rightarrow> exn + jsval" where
  "connect_options prop =
     (if typeof prop = ''object''
      then (case js_get prop ''name'' of
              Inl e \<Rightarrow> Inl e
            | Inr n \<Rightarrow>
                if \<not> truthy n
                then Inr (case prop of JObj fs \<Rightarrow> JObj (obj_set fs ''name'' (JStr ownName)) | _ \<Rightarrow> prop)
                else Inr prop)
      else Inr (JObj [(''name'', JStr ownName)]))"

definition connect :: "state \<Rightarrow> jsval \<Rightarrow> jsval \<Rightarrow> result" where
  "connect st prop maximumClients =
     (case connect_options prop of
        Inl e \<Rightarrow> (st, [], Threw e)
      | Inr options \<Rightarrow>
          (let maximumClients = (if typeof prop \<noteq> ''object'' \<and> typeof prop = ''number''
                                 then prop else maximumClients);
               st1 = (case maximumClients of
                        JNum n \<Rightarrow> if n < 0 then st\<lparr>allowingAllClients := True\<rparr>
                                  else st\<lparr>maxClients := n + 1\<rparr>
                      | _ \<Rightarrow> st)
           in case channel st1 of
                None \<Rightarrow> (st1, [], Threw TypeError)
              | Some ch \<Rightarrow>
                  (st1,
                   [ChannelOn (JStr ''keydown'') (Dispatch ''keydown''),
                    ChannelOn (JStr ''seek'') (Dispatch ''seek''),
                    ChannelOn (JStr ''volume'') (Dispatch ''volume''),
                    ChannelOn (JStr ''play'') (Dispatch ''play''),
                    ChannelOn (JStr ''reclaim'') (Dispatch ''reclaim''),
                    ChannelOn (JStr ''clientConnect'') OnClientConnect,
                    ChannelOn (JStr ''clientDisconnect'') OnClientDisconnect,
                    ChannelOn (JStr ''connect'') OnConnect,
                    ChannelOn (JStr ''disconnect'') OnDisconnect,
                    ChannelConnect options,
                    AddVisibilityListener],
                   Returned JUndefined)))"

text \<open>The listener \<open>onVisibilityChangeHandle\<close> registers, run with \<open>document.hidden\<close>.\<close>

definition onVisibilityChange :: "state \<Rightarrow> bool \<Rightarrow> result" where
  "onVisibilityChange st hidden =
     (if hidden then send st [JStr ''suspend''] else send st [JStr ''restore''])"

definition setCallback :: "string \<Rightarrow> state \<Rightarrow> jsval \<Rightarrow> result" where
  "setCallback event st callback =
     (st\<lparr>clientCallbacks := obj_set (clientCallbacks st) event callback\<rparr>, [],
      Returned JUndefined)"

subsection \<open>Initialisation and the outbound operations\<close>

text \<open>
  \<open>init\<close> up to the call of \<open>msf.local\<close>, and the function it passes there, which the SDK
  calls with an error or with a service whose \<open>channel(chanName)\<close> is \<open>ch\<close>.
\<close>

definition init :: "env \<Rightarrow> state \<Rightarrow> jsval \<Rightarrow> jsval \<Rightarrow> jsval \<Rightarrow> result" where
  "init e st chanName eb callback =
     (if \<not> msf_loaded e then (st, [Console ''error''], Returned JUndefined)
      else if (case channel st of None \<Rightarrow> False | Some ch \<Rightarrow> isConnected ch)
      then (st, [], Returned JUndefined)
      else if \<not> truthy chanName \<or> typeof chanName \<noteq> ''string''
      then (st, [Console ''error''], Returned JUndefined)
      else (let callback = (if typeof eb = ''function'' then eb else callback);
                eb = (if typeof eb = ''function'' then JNull else eb)
            in (st\<lparr>eventBus := eb\<rparr>, [MsfLocal chanName callback], Returned JUndefined)))"

definition init_resolved :: "state \<Rightarrow> jsval \<Rightarrow> chan \<Rightarrow> jsval \<Rightarrow> result" where
  "init_resolved st err ch callback =
     (if truthy err then (st, [Console ''error''], Returned JUndefined)
      else (st\<lparr>channel := Some ch\<rparr>,
            (case callback of JFun k \<Rightarrow> [CallCallback k] | _ \<Rightarrow> []),
            Returned JUndefined))"

definition deinit :: "state \<Rightarrow> result" where
  "deinit st =
     (case channel st of
        None \<Rightarrow> (st, [], Threw TypeError)
      | Some ch \<Rightarrow> (st\<lparr>channel := None\<rparr>, [ChannelDisconnect], Returned JUndefined))"

definition play :: "state \<Rightarrow> jsval \<Rightarrow> jsval \<Rightarrow> jsval \<Rightarrow> result" where
  "play st vid position data =
     (let castParams = [(''videoId'', vid), (''position'', position)];
          castParams = (if truthy data then obj_set castParams ''data'' data else castParams)
      in send st [JStr ''play'', JObj castParams])"

definition sendStatus :: "env \<Rightarrow> state \<Rightarrow> jsval \<Rightarrow> result" where
  "sendStatus e st statusObj =
     (let statusObj =
            (if \<not> truthy statusObj
             then JObj [(''state'', avplay_getState e),
                        (''position'', avplay_getCurrentTime e),
                        (''totalTime'', avplay_getDuration e),
                        (''volume'', JNum (if isMute e then 0 - getVolume e else getVolume e)),
                        (''videoId'', videoId st)]
             else statusObj)
      in send st [JStr ''status'', JSON_stringify e statusObj])"

text \<open>
  \<open>on\<close>: the restricted names are the keys of \<open>eventCallbacks\<close> and the four generic
  events; \<open>indexOf\<close> compares with \<open>===\<close>, so only a string can be restricted.
\<close>

definition restrictedEvents :: "jsval list" where
  "restrictedEvents =
     map (\<lambda>p. JStr (fst p)) eventCallbacks
     @ [JStr ''connect'', JStr ''disconnect'', JStr ''clientConnect'', JStr ''clientDisconnect'']"

definition on :: "state \<Rightarrow> jsval \<Rightarrow> jsval \<Rightarrow> result" where
  "on st eventName callback =
     (if indexOf restrictedEvents eventName > - 1
      then (st, [Console ''debug''], Returned (JBool False))
      else (case channel st of
              None \<Rightarrow> (st, [], Threw TypeError)
            | Some ch \<Rightarrow>
                (st,
                 [ChannelOn eventName
                    (if typeof callback \<noteq> ''function'' then LoggingNoop eventName
                     else UserHandler callback)],
                 Returned JUndefined)))"

section \<open>The module as a transition system\<close>

text \<open>
  Everything that runs code of the module: the public operations, the function given to
  \<open>msf.local\<close>, and the handlers the SDK and the document call. \<open>ClientsChanged\<close> is the
  SDK updating \<open>channel.clients\<close>, which runs no code of the module.
\<close>

datatype op =
    Init jsval jsval jsval
  | InitResolved jsval chan jsval
  | Deinit
  | Connect jsval jsval
  | Send "jsval list"
  | Play jsval jsval jsval
  | Status jsval
  | Error jsval
  | On jsval jsval
  | SetConnectCallback jsval
  | SetDisconnectCallback jsval
  | ChannelConnected jsval
  | ClientConnected client
  | ClientDisconnected client
  | TVConnected
  | TVDisconnected
  | Message string jsval client
  | VisibilityChanged bool
  | ClientsChanged "client list"

fun step :: "env \<Rightarrow> state \<Rightarrow> op \<Rightarrow> result" where
  "step e st (Init chanName eb callback) = init e st chanName eb callback"
| "step e st (InitResolved err ch callback) = init_resolved st err ch callback"
| "step e st Deinit = deinit st"
| "step e st (Connect prop maximumClients) = connect st prop maximumClients"
| "step e st (Send args) = send st args"
| "step e st (Play vid position data) = play st vid position data"
| "step e st (Status statusObj) = sendStatus e st statusObj"
| "step e st (Error type) = error st type"
| "step e st (On eventName callback) = on st eventName callback"
| "step e st (SetConnectCallback callback) = setCallback ''connect'' st callback"
| "step e st (SetDisconnectCallback callback) = setCallback ''disconnect'' st callback"
| "step e st (ChannelConnected err) = onChannelConnect st err"
| "step e st (ClientConnected c) = onClientConnect e st c"
| "step e st (ClientDisconnected c) = onClientDisconnect e st c"
| "step e st TVConnected = (st, [], Returned JUndefined)"
| "step e st TVDisconnected = (st, [], Returned JUndefined)"
| "step e st (Message event obj c) = dispatch e event st obj c"
| "step e st (VisibilityChanged hidden) = onVisibilityChange st hidden"
| "step e st (ClientsChanged cs) =
     (st\<lparr>channel := map_option (\<lambda>ch. ch\<lparr>clients := cs\<rparr>) (channel st)\<rparr>, [], Returned JUndefined)"

text \<open>A run: the operations in order, stopping at the first one that throws.\<close>

fun run :: "env \<Rightarrow> state \<Rightarrow> op list \<Rightarrow> result" where
  "run e st [] = (st, [], Returned JUndefined)"
| "run e st (x # xs) = andThen (step e st x) (\<lambda>st. run e st xs)"

definition state_of :: "result \<Rightarrow> state" where
  "state_of r = fst r"

definition effects_of :: "result \<Rightarrow> effect list" where
  "effects_of r = fst (snd r)"

definition outcome_of :: "result \<Rightarrow> outcome" where
  "outcome_of r = snd (snd r)"

subsection \<open>Sample surroundings\<close>

text \<open>
  A host and three remote clients, and surroundings for the concrete runs below:
  \<open>JSON.parse\<close> is given by its values on the two JSON texts used there and throws on
  \<open>malformed_text\<close>, which is not JSON; \<open>parseInt\<close> is given by its value on \<open>"-30"\<close> and
  is NaN on the other value used there, \<open>"loud"\<close>; the rest of the surroundings is
  arbitrary.
\<close>

definition tv :: client where
  "tv = \<lparr> client_id = ''tv'', isHost = True, attributes = JObj [], connectTime = 0 \<rparr>"

definition phone1 :: client where
  "phone1 = \<lparr> client_id = ''p1'', isHost = False, attributes = JObj [], connectTime = 1 \<rparr>"

definition phone2 :: client where
  "phone2 = \<lparr> client_id = ''p2'', isHost = False, attributes = JObj [], connectTime = 2 \<rparr>"

definition phone3 :: client where
  "phone3 = \<lparr> client_id = ''p3'', isHost = False, attributes = JObj [], connectTime = 3 \<rparr>"

definition volume_text :: string where
  "volume_text = ''{\"value\":\"-30\"}''"

definition seek_text :: string where
  "seek_text = ''{\"position\":0}''"

definition malformed_text :: string where
  "malformed_text = ''{position:''"

definition sample_parse :: "string \<Rightarrow> jsval option" where
  "sample_parse s =
     (if s = volume_text then Some (JObj [(''value'', JStr ''-30'')])
      else if s = seek_text then Some (JObj [(''position'', JNum 0)])
      else None)"

definition sample_parseInt :: "jsval \<Rightarrow> exn + number" where
  "sample_parseInt v = (if v = JStr ''-30'' then Inr (Finite (- 30)) else Inr NaN)"

definition sample_env :: env where
  "sample_env =
     \<lparr> JSON_parse = sample_parse,
       JSON_stringify = (\<lambda>v. JStr []),
       parseInt10 = sample_parseInt,
       ToString = (\<lambda>v. Inr []),
       Object_prototype = (\<lambda>k. JUndefined),
       call_function = (\<lambda>k c. JUndefined),
       msf_loaded = True,
       getVolume = 10,
       isMute = False,
       avplay_getState = JStr ''PLAYING'',
       avplay_getCurrentTime = JNum 0,
       avplay_getDuration = JNum 1000 \<rparr>"

text \<open>The module after \<open>init\<close> has obtained a channel on which only the host is listed.\<close>

definition ready_state :: state where
  "ready_state = (initial_state [])\<lparr>channel := Some \<lparr> clients = [tv], isConnected = False \<rparr>\<rparr>"

text \<open>
  A crowded channel under the default limit, with two clients on the deny-list, and the
  module after \<open>connect({}, 1)\<close>.
\<close>

definition denied_state :: state where
  "denied_state =
     ready_state\<lparr>channel := Some \<lparr> clients = [tv, phone1, phone2, phone3], isConnected = True \<rparr>,
                 forbiddenClients := [''p2'', ''p3'']\<rparr>"

definition limit1_state :: state where
  "limit1_state = state_of (connect ready_state (JObj []) (JNum 1))"

subsection \<open>Notions used in the statements\<close>

text \<open>The message \<open>raiseError(403, client.id)\<close> publishes.\<close>

definition access_denied :: "client \<Rightarrow> effect" where
  "access_denied c =
     Publish [JStr ''error'', JObj [(''message'', JStr ''Access denied''), (''code'', JNum 403)],
              JStr (client_id c)]"

text \<open>The sender passes the allow check of \<open>dispatch\<close>.\<close>

definition admitted :: "state \<Rightarrow> client \<Rightarrow> bool" where
  "admitted st c = (isClientAllowed st c \<or> allowingAllClients st)"

text \<open>A sequence of messages \<open>(event, payload)\<close>, all from one client.\<close>

fun messages_from :: "client \<Rightarrow> (string \<times> jsval) list \<Rightarrow> op list" where
  "messages_from c [] = []"
| "messages_from c (m # ms) = Message (fst m) (snd m) c # messages_from c ms"

section \<open>Auxiliary facts\<close>

subsection \<open>Lists\<close>

lemma indexOf_lower: "- 1 \<le> indexOf xs x"
  by (induction xs) auto

lemma indexOf_absent: "indexOf xs x < 0 \<longleftrightarrow> x \<notin> set xs"
proof (induction xs)
  case Nil
  show ?case by simp
next
  case (Cons y ys)
  have "- 1 \<le> indexOf ys x" by (rule indexOf_lower)
  with Cons show ?case by auto
qed

lemma indexOf_present: "indexOf xs x > - 1 \<longleftrightarrow> x \<in> set xs"
  using indexOf_absent [of xs x] indexOf_lower [of xs x] by linarith

lemma splice1_indexOf: "x \<in> set xs \<Longrightarrow> splice1 xs (indexOf xs x) = remove1 x xs"
proof (induction xs)
  case Nil
  then show ?case by simp
next
  case (Cons y ys)
  show ?case
  proof (cases "y = x")
    case True
    then show ?thesis by (simp add: splice1_def)
  next
    case False
    with Cons.prems have mem: "x \<in> set ys" by simp
    then have nn: "\<not> indexOf ys x < 0" by (simp add: indexOf_absent)
    then have "nat (indexOf ys x + 1) = Suc (nat (indexOf ys x))" by simp
    with False nn Cons.IH [OF mem] show ?thesis by (simp add: splice1_def)
  qed
qed

subsection \<open>Sending and sequencing\<close>

lemma send_state: "state_of (send st args) = st"
  by (simp add: send_def state_of_def split: option.splits)

lemma raiseError_403:
  "channel st = Some ch \<Longrightarrow>
     raiseError st 403 (client_id c) = (st, [access_denied c], Returned JUndefined)"
  by (simp add: raiseError_def send_def access_denied_def)

lemma raiseError_admission:
  "forbiddenClients (state_of (raiseError st code i)) = forbiddenClients st
   \<and> allowingAllClients (state_of (raiseError st code i)) = allowingAllClients st
   \<and> channel (state_of (raiseError st code i)) = channel st"
  by (simp add: raiseError_def send_def state_of_def split: option.splits)

lemma state_of_andThen_const:
  "state_of (andThen r (\<lambda>st. (st, es, out))) = state_of r"
  by (cases r rule: prod_cases3) (simp add: andThen_def state_of_def split: outcome.splits)

lemma andThen_return:
  "andThen (st, es, Returned v) (\<lambda>st. (st, [], Returned JUndefined)) = (st, es, Returned JUndefined)"
  "andThen (st, es, Threw x) f = (st, es, Threw x)"
  by (simp_all add: andThen_def)

subsection \<open>The dispatcher\<close>

lemma call_builtin_admission:
  "forbiddenClients (state_of (call_builtin e h st p)) = forbiddenClients st
   \<and> allowingAllClients (state_of (call_builtin e h st p)) = allowingAllClients st
   \<and> channel (state_of (call_builtin e h st p)) = channel st"
  by (cases h)
     (auto simp: state_of_def onKeydown_def onSeek_def onVolume_def onPlay_def onReclaim_def
         sendKeydownEvent_def Let_def split: sum.splits option.splits if_splits)

lemma dispatch_admission:
  "forbiddenClients (state_of (dispatch e event st obj c)) = forbiddenClients st
   \<and> allowingAllClients (state_of (dispatch e event st obj c)) = allowingAllClients st
   \<and> channel (state_of (dispatch e event st obj c)) = channel st"
  by (simp add: dispatch_def state_of_andThen_const raiseError_admission call_builtin_admission
      split: option.splits)

lemma dispatch_denied:
  assumes "\<not> allowingAllClients st" "client_id c \<in> set (forbiddenClients st)"
    "channel st = Some ch" "event \<in> set (map fst eventCallbacks)"
  shows "dispatch e event st obj c = (st, [access_denied c], Returned (JBool False))"
proof -
  from assms(4) obtain h where h: "map_of eventCallbacks event = Some h"
    by (auto simp: eventCallbacks_def)
  from assms(2) have "\<not> isClientAllowed st c"
    by (simp add: isClientAllowed_def indexOf_absent)
  with assms(1,3) h show ?thesis
    by (simp add: dispatch_def raiseError_403 andThen_def)
qed

lemma run_denied:
  assumes "\<not> allowingAllClients st" "client_id c \<in> set (forbiddenClients st)"
    "channel st = Some ch"
  shows "set (map fst ms) \<subseteq> set (map fst eventCallbacks) \<Longrightarrow>
    run e st (messages_from c ms) =
      (st, replicate (length ms) (access_denied c), Returned JUndefined)"
proof (induction ms)
  case Nil
  show ?case by simp
next
  case (Cons m ms)
  then have ev: "fst m \<in> set (map fst eventCallbacks)" by simp
  from Cons have rest: "run e st (messages_from c ms) =
      (st, replicate (length ms) (access_denied c), Returned JUndefined)" by simp
  show ?case
    by (simp add: dispatch_denied [OF assms ev] andThen_def rest)
qed

lemma dispatch_admitted:
  assumes "admitted st c" "map_of eventCallbacks event = Some h"
  shows "dispatch e event st obj c =
           andThen (call_builtin e h st (parse_payload e obj))
             (\<lambda>st. (st, [], Returned JUndefined))"
  using assms by (auto simp: dispatch_def admitted_def)

subsection \<open>Connecting clients and the deny-list\<close>

lemma connect_max_clients:
  "0 \<le> n \<Longrightarrow> maxClients (state_of (connect st (JObj fs) (JNum n))) = n + 1"
  by (simp add: connect_def connect_options_def state_of_def Let_def split: option.splits)

lemma callClientCallback_effects:
  "access_denied c \<notin> set (fst (callClientCallback e st name c'))"
  by (simp add: callClientCallback_def access_denied_def split: jsval.splits)

lemma onClientConnect_over:
  "channel st = Some ch \<Longrightarrow> maxClients st < int (length (clients ch)) \<Longrightarrow>
     onClientConnect e st c =
       (st\<lparr>forbiddenClients := forbiddenClients st @ [client_id c]\<rparr>,
        [Publish [JStr ''ready''], access_denied c], Returned JUndefined)"
  by (simp add: onClientConnect_def send_def andThen_def raiseError_403)

lemma onClientConnect_within:
  assumes "channel st = Some ch" "int (length (clients ch)) \<le> maxClients st"
  shows "access_denied c \<notin> set (effects_of (onClientConnect e st c))
     \<and> forbiddenClients (state_of (onClientConnect e st c))
         = remove1 (client_id c) (forbiddenClients st)"
proof (cases "client_id c \<in> set (forbiddenClients st)")
  case True
  with assms show ?thesis
    by (simp add: onClientConnect_def send_def andThen_def state_of_def effects_of_def Let_def
        indexOf_present splice1_indexOf callClientCallback_effects)
       (simp add: access_denied_def)
next
  case False
  with assms show ?thesis
    by (simp add: onClientConnect_def send_def andThen_def state_of_def effects_of_def Let_def
        indexOf_present remove1_idem callClientCallback_effects)
       (simp add: access_denied_def)
qed

lemma onClientConnect_forbidden:
  "forbiddenClients (state_of (onClientConnect e st c)) = forbiddenClients st
   \<or> forbiddenClients (state_of (onClientConnect e st c)) = forbiddenClients st @ [client_id c]
   \<or> (client_id c \<in> set (forbiddenClients st)
       \<and> forbiddenClients (state_of (onClientConnect e st c))
           = remove1 (client_id c) (forbiddenClients st))"
proof (cases "channel st")
  case None
  then show ?thesis by (simp add: onClientConnect_def send_def andThen_def state_of_def)
next
  case (Some ch)
  show ?thesis
  proof (cases "maxClients st < int (length (clients ch))")
    case True
    with Some show ?thesis by (simp add: onClientConnect_over state_of_def)
  next
    case False
    with Some onClientConnect_within [of st ch c e]
    have r: "forbiddenClients (state_of (onClientConnect e st c))
               = remove1 (client_id c) (forbiddenClients st)"
      by simp
    show ?thesis
    proof (cases "client_id c \<in> set (forbiddenClients st)")
      case True
      with r show ?thesis by simp
    next
      case False
      with r show ?thesis by (simp add: remove1_idem)
    qed
  qed
qed

lemma step_forbidden_other:
  assumes "\<forall>c. x \<noteq> ClientDisconnected c" "\<forall>c. x \<noteq> ClientConnected c"
  shows "forbiddenClients (state_of (step e st x)) = forbiddenClients st"
proof (cases x)
  case (Message event obj c)
  then show ?thesis by (simp add: dispatch_admission)
next
  case (Connect pr m)
  then show ?thesis
    by (auto simp: connect_def state_of_def Let_def split: sum.splits option.splits jsval.splits)
next
  case (Error v)
  then show ?thesis by (cases v) (simp_all add: send_state, simp add: state_of_def)
next
  case (Init a b c)
  then show ?thesis by (simp add: init_def state_of_def Let_def)
next
  case (ChannelConnected err)
  then show ?thesis
    by (simp add: onChannelConnect_def state_of_def andThen_def send_def split: option.splits)
qed (use assms in \<open>simp_all add: send_state init_resolved_def deinit_def play_def sendStatus_def
      on_def setCallback_def onVisibilityChange_def state_of_def Let_def send_def
      split: option.splits\<close>)

section \<open>Malformed payloads\<close>

text \<open>
  C1. The claim: a protocol message whose string payload is not parseable JSON, from a
  sender that passes the allow check, is absorbed, and the handler no-ops without
  raising. What the code does: the parse failure is caught and the handler is called
  with null; \<open>onKeydown\<close>, \<open>onSeek\<close>, \<open>onVolume\<close> and \<open>onPlay\<close> read a property of that
  null and raise a TypeError, and \<open>onReclaim\<close> emits its notification as for any other
  payload.
\<close>

theorem C1_malformed_payload_raises:
  "JSON_parse e s = None \<longrightarrow> admitted st c \<longrightarrow>
     (event \<in> {''keydown'', ''seek'', ''volume'', ''play''} \<longrightarrow>
        dispatch e event st (JStr s) c = (st, [], Threw TypeError))
   \<and> dispatch e ''reclaim'' st (JStr s) c =
        (st, [DocumentDispatch ''ms2:reclaim'' JNull], Returned JUndefined)"
  by (auto simp: dispatch_def admitted_def eventCallbacks_def parse_payload_def andThen_def
      onKeydown_def onSeek_def onVolume_def onPlay_def onReclaim_def)

theorem C1_malformed_payload_raises_witness:
  "JSON_parse sample_env malformed_text = None \<and> admitted ready_state phone1
   \<and> dispatch sample_env ''seek'' ready_state (JStr malformed_text) phone1
       = (ready_state, [], Threw TypeError)
   \<and> dispatch sample_env ''reclaim'' ready_state (JStr malformed_text) phone1
       = (ready_state, [DocumentDispatch ''ms2:reclaim'' JNull], Returned JUndefined)"
  using C1_malformed_payload_raises [of sample_env malformed_text ready_state phone1 "''seek''"]
  by (simp add: sample_env_def sample_parse_def malformed_text_def volume_text_def seek_text_def
      admitted_def isClientAllowed_def ready_state_def initial_state_def)

section \<open>Admission\<close>

text \<open>
  C2. The claim: after \<open>connect({}, -1)\<close> no client is sent a 403 or added to the
  deny-list by any later connect or protocol-message event. What the code does:
  \<open>connect\<close> sets \<open>allowingAllClients\<close> and leaves \<open>maxClients\<close> at 2; \<open>dispatch\<close> consults
  the flag, \<open>onClientConnect\<close> does not. With the host and two clients listed, the second
  client is sent the 403 and put on the deny-list, and its next message is handled all
  the same.
\<close>

theorem C2_allow_all_still_denies:
  "allowingAllClients (state_of (connect ready_state (JObj []) (JNum (- 1))))
   \<and> maxClients (state_of (connect ready_state (JObj []) (JNum (- 1)))) = 2
   \<and> effects_of (run sample_env (state_of (connect ready_state (JObj []) (JNum (- 1))))
        [ClientsChanged [tv, phone1, phone2], ClientConnected phone2])
       = [Publish [JStr ''ready''], access_denied phone2]
   \<and> forbiddenClients (state_of (run sample_env
        (state_of (connect ready_state (JObj []) (JNum (- 1))))
        [ClientsChanged [tv, phone1, phone2], ClientConnected phone2])) = [''p2'']
   \<and> effects_of (run sample_env (state_of (connect ready_state (JObj []) (JNum (- 1))))
        [ClientsChanged [tv, phone1, phone2], ClientConnected phone2,
         Message ''reclaim'' JUndefined phone2])
       = [Publish [JStr ''ready''], access_denied phone2, DocumentDispatch ''ms2:reclaim'' JNull]"
  by (simp add: ready_state_def initial_state_def connect_def connect_options_def ownName_def
      state_of_def effects_of_def andThen_def onClientConnect_def send_def raiseError_def
      access_denied_def tv_def phone1_def phone2_def Let_def dispatch_def eventCallbacks_def
      onReclaim_def)

text \<open>
  C3, as stated, fails: after \<open>connect({}, 1)\<close> the stored \<open>maxClients\<close> is 2, but
  \<open>channel.clients\<close> lists the host as well (\<open>onChannelConnect\<close> skips its \<open>isHost\<close>
  entries), so when the second non-host client connects the list has three entries and
  that client, not the third, is the first one sent the 403 and put on the deny-list.
  Likewise, when the channel connects with the host and two clients listed,
  \<open>onChannelConnect\<close> announces both clients, and already the first one announced is
  denied.
\<close>

theorem C3_counterexample:
  "maxClients (state_of (connect ready_state (JObj []) (JNum 1))) = 2
   \<and> map isHost [tv, phone1, phone2] = [True, False, False]
   \<and> access_denied phone2 \<in> set (effects_of (run sample_env ready_state
        [Connect (JObj []) (JNum 1),
         ClientsChanged [tv, phone1], ClientConnected phone1,
         ClientsChanged [tv, phone1, phone2], ClientConnected phone2]))
   \<and> forbiddenClients (state_of (run sample_env ready_state
        [Connect (JObj []) (JNum 1),
         ClientsChanged [tv, phone1], ClientConnected phone1,
         ClientsChanged [tv, phone1, phone2], ClientConnected phone2])) = [''p2'']
   \<and> effects_of (run sample_env limit1_state
        [ClientsChanged [tv, phone1, phone2], ChannelConnected JUndefined, ClientConnected phone1])
       = [Emit ''clientConnect'' phone1, Emit ''clientConnect'' phone2, Publish [JStr ''ready''],
          Publish [JStr ''ready''], access_denied phone1]"
  by (simp add: ready_state_def initial_state_def connect_def connect_options_def ownName_def
      state_of_def effects_of_def andThen_def onClientConnect_def send_def raiseError_def
      callClientCallback_def own_prop_def access_denied_def tv_def phone1_def phone2_def Let_def
      limit1_state_def onChannelConnect_def)

text \<open>
  C3, amended: \<open>connect({}, 1)\<close> sets the stored \<open>maxClients\<close> to 2 (requested + 1, the
  host counting as one slot), and under this setting a connecting client is sent the 403
  and appended to the deny-list exactly when \<open>channel.clients\<close>, which counts the host and
  the connecting client, has more than 2 entries; otherwise it is admitted and its id is
  taken off the deny-list. With the host listed, the first non-host client is admitted and
  the second is the first one denied.
\<close>

theorem C3_capacity_counts_host:
  "channel st = Some ch \<longrightarrow>
     maxClients (state_of (connect st (JObj fs) (JNum 1))) = 2
   \<and> (maxClients st = 2 \<longrightarrow>
        (access_denied c \<in> set (effects_of (onClientConnect e st c))
           \<longleftrightarrow> 2 < length (clients ch))
      \<and> (2 < length (clients ch) \<longrightarrow>
           forbiddenClients (state_of (onClientConnect e st c))
             = forbiddenClients st @ [client_id c])
      \<and> (length (clients ch) \<le> 2 \<longrightarrow>
           forbiddenClients (state_of (onClientConnect e st c))
             = remove1 (client_id c) (forbiddenClients st))
      \<and> (length (filter isHost (clients ch)) = 1 \<longrightarrow>
           (access_denied c \<in> set (effects_of (onClientConnect e st c))
              \<longleftrightarrow> 2 \<le> length (filter (\<lambda>c. \<not> isHost c) (clients ch)))))"
proof (intro impI conjI)
  assume ch: "channel st = Some ch"
  show "maxClients (state_of (connect st (JObj fs) (JNum 1))) = 2"
    by (simp add: connect_max_clients)
  assume m: "maxClients st = 2"
  show iff: "access_denied c \<in> set (effects_of (onClientConnect e st c))
      \<longleftrightarrow> 2 < length (clients ch)"
  proof (cases "2 < length (clients ch)")
    case True
    with ch m show ?thesis by (simp add: onClientConnect_over effects_of_def)
  next
    case False
    with ch m onClientConnect_within [of st ch c e] show ?thesis by simp
  qed
  { assume "2 < length (clients ch)"
    with ch m show "forbiddenClients (state_of (onClientConnect e st c))
        = forbiddenClients st @ [client_id c]"
      by (simp add: onClientConnect_over state_of_def) }
  { assume "length (clients ch) \<le> 2"
    with ch m onClientConnect_within [of st ch c e]
    show "forbiddenClients (state_of (onClientConnect e st c))
        = remove1 (client_id c) (forbiddenClients st)"
      by simp }
  { assume h: "length (filter isHost (clients ch)) = 1"
    have "length (clients ch)
        = length (filter isHost (clients ch)) + length (filter (\<lambda>c. \<not> isHost c) (clients ch))"
      by (simp add: sum_length_filter_compl)
    with h have "2 < length (clients ch)
        \<longleftrightarrow> 2 \<le> length (filter (\<lambda>c. \<not> isHost c) (clients ch))"
      by linarith
    with iff show "access_denied c \<in> set (effects_of (onClientConnect e st c))
        \<longleftrightarrow> 2 \<le> length (filter (\<lambda>c. \<not> isHost c) (clients ch))"
      by blast }
qed

theorem C3_capacity_counts_host_witness:
  "maxClients (state_of (connect ready_state (JObj []) (JNum 1))) = 2
   \<and> access_denied phone1 \<notin> set (effects_of (onClientConnect sample_env
        (limit1_state\<lparr>channel := Some \<lparr> clients = [tv, phone1], isConnected = True \<rparr>\<rparr>) phone1))
   \<and> access_denied phone2 \<in> set (effects_of (onClientConnect sample_env
        (limit1_state\<lparr>channel := Some \<lparr> clients = [tv, phone1, phone2], isConnected = True \<rparr>\<rparr>)
        phone2))
   \<and> forbiddenClients (state_of (onClientConnect sample_env
        (limit1_state\<lparr>channel := Some \<lparr> clients = [tv, phone1, phone2], isConnected = True \<rparr>\<rparr>)
        phone2))
       = [''p2'']"
  using C3_capacity_counts_host [of ready_state "\<lparr> clients = [tv], isConnected = False \<rparr>" "[]"
        phone1 sample_env]
    C3_capacity_counts_host [of
        "limit1_state\<lparr>channel := Some \<lparr> clients = [tv, phone1], isConnected = True \<rparr>\<rparr>"
        "\<lparr> clients = [tv, phone1], isConnected = True \<rparr>" "[]" phone1 sample_env]
    C3_capacity_counts_host [of
        "limit1_state\<lparr>channel := Some \<lparr> clients = [tv, phone1, phone2], isConnected = True \<rparr>\<rparr>"
        "\<lparr> clients = [tv, phone1, phone2], isConnected = True \<rparr>" "[]" phone2 sample_env]
  by (simp add: limit1_state_def ready_state_def initial_state_def connect_def connect_options_def
      state_of_def Let_def phone2_def)

text \<open>
  C4. While \<open>allowingAllClients\<close> is false, a protocol message (keydown, seek, volume,
  play, reclaim) from a client whose id is on the deny-list is answered with the 403
  error to that client, returns false, and runs no handler: the state is unchanged and
  nothing else is emitted. So is every message of any sequence of them from that client;
  and no protocol message, from anyone, changes the deny-list or the flag, so the
  rejection lasts until a connect or disconnect event changes the list.
\<close>

theorem C4_denied_client_rejected:
  "\<not> allowingAllClients st \<longrightarrow> client_id c \<in> set (forbiddenClients st) \<longrightarrow>
   channel st = Some ch \<longrightarrow>
     (event \<in> {''keydown'', ''seek'', ''volume'', ''play'', ''reclaim''} \<longrightarrow>
        dispatch e event st obj c = (st, [access_denied c], Returned (JBool False)))
     \<and> (set (map fst ms) \<subseteq> {''keydown'', ''seek'', ''volume'', ''play'', ''reclaim''} \<longrightarrow>
        run e st (messages_from c ms) =
          (st, replicate (length ms) (access_denied c), Returned JUndefined))
     \<and> forbiddenClients (state_of (dispatch e event' st obj' c')) = forbiddenClients st
     \<and> allowingAllClients (state_of (dispatch e event' st obj' c')) = allowingAllClients st"
proof (intro impI conjI)
  assume a: "\<not> allowingAllClients st" "client_id c \<in> set (forbiddenClients st)"
    "channel st = Some ch"
  { assume "event \<in> {''keydown'', ''seek'', ''volume'', ''play'', ''reclaim''}"
    then have "event \<in> set (map fst eventCallbacks)" by (simp add: eventCallbacks_def)
    then show "dispatch e event st obj c = (st, [access_denied c], Returned (JBool False))"
      by (rule dispatch_denied [OF a]) }
  { assume "set (map fst ms) \<subseteq> {''keydown'', ''seek'', ''volume'', ''play'', ''reclaim''}"
    then have "set (map fst ms) \<subseteq> set (map fst eventCallbacks)"
      by (simp add: eventCallbacks_def)
    then show "run e st (messages_from c ms) =
          (st, replicate (length ms) (access_denied c), Returned JUndefined)"
      by (rule run_denied [OF a]) }
  show "forbiddenClients (state_of (dispatch e event' st obj' c')) = forbiddenClients st"
    by (simp add: dispatch_admission)
  show "allowingAllClients (state_of (dispatch e event' st obj' c')) = allowingAllClients st"
    by (simp add: dispatch_admission)
qed

theorem C4_denied_client_rejected_witness:
  "\<not> allowingAllClients denied_state \<and> client_id phone3 \<in> set (forbiddenClients denied_state)
   \<and> dispatch sample_env ''seek'' denied_state (JObj [(''position'', JNum 5000)]) phone3
       = (denied_state, [access_denied phone3], Returned (JBool False))
   \<and> run sample_env denied_state
         (messages_from phone3 [(''reclaim'', JUndefined), (''play'', JObj [(''videoId'', JNum 7)])])
       = (denied_state, [access_denied phone3, access_denied phone3], Returned JUndefined)
   \<and> forbiddenClients
         (state_of (dispatch sample_env ''play'' denied_state (JObj [(''videoId'', JNum 7)]) phone1))
       = [''p2'', ''p3'']"
  using C4_denied_client_rejected [of denied_state phone3
      "\<lparr> clients = [tv, phone1, phone2, phone3], isConnected = True \<rparr>" "''seek''"
      sample_env "JObj [(''position'', JNum 5000)]"
      "[(''reclaim'', JUndefined), (''play'', JObj [(''videoId'', JNum 7)])]"
      "''play''" "JObj [(''videoId'', JNum 7)]" phone1]
  by (simp add: denied_state_def ready_state_def initial_state_def phone3_def)

text \<open>
  C5. A client-disconnect event empties the deny-list when it finds the connected-client
  count at most \<open>maxClients\<close>, and leaves the list as it is when the count is above
  \<open>maxClients\<close> (or when there is no channel, where the handler raises). No other
  operation empties it wholesale: every other operation leaves the list unchanged,
  appends one id to it, or removes one occurrence of one id from it.
\<close>

theorem C5_deny_list_cleared_on_disconnect:
  "(channel st = Some ch \<longrightarrow> int (length (clients ch)) \<le> maxClients st \<longrightarrow>
      forbiddenClients (state_of (step e st (ClientDisconnected c))) = [])
   \<and> (channel st = Some ch \<longrightarrow> maxClients st < int (length (clients ch)) \<longrightarrow>
      forbiddenClients (state_of (step e st (ClientDisconnected c))) = forbiddenClients st)
   \<and> (channel st = None \<longrightarrow>
      forbiddenClients (state_of (step e st (ClientDisconnected c))) = forbiddenClients st)
   \<and> ((\<forall>c'. x \<noteq> ClientDisconnected c') \<longrightarrow>
      forbiddenClients (state_of (step e st x)) = forbiddenClients st
      \<or> (\<exists>i. forbiddenClients (state_of (step e st x)) = forbiddenClients st @ [i])
      \<or> (\<exists>i. i \<in> set (forbiddenClients st)
             \<and> forbiddenClients (state_of (step e st x)) = remove1 i (forbiddenClients st)))"
proof (intro conjI impI)
  assume "channel st = Some ch" "int (length (clients ch)) \<le> maxClients st"
  then show "forbiddenClients (state_of (step e st (ClientDisconnected c))) = []"
    by (simp add: onClientDisconnect_def state_of_def Let_def)
next
  assume "channel st = Some ch" "maxClients st < int (length (clients ch))"
  then show "forbiddenClients (state_of (step e st (ClientDisconnected c))) = forbiddenClients st"
    by (simp add: onClientDisconnect_def state_of_def Let_def)
next
  assume "channel st = None"
  then show "forbiddenClients (state_of (step e st (ClientDisconnected c))) = forbiddenClients st"
    by (simp add: onClientDisconnect_def state_of_def Let_def)
next
  assume nd: "\<forall>c'. x \<noteq> ClientDisconnected c'"
  show "forbiddenClients (state_of (step e st x)) = forbiddenClients st
      \<or> (\<exists>i. forbiddenClients (state_of (step e st x)) = forbiddenClients st @ [i])
      \<or> (\<exists>i. i \<in> set (forbiddenClients st)
             \<and> forbiddenClients (state_of (step e st x)) = remove1 i (forbiddenClients st))"
  proof (cases "\<exists>c'. x = ClientConnected c'")
    case True
    then obtain c' where "x = ClientConnected c'" by blast
    with onClientConnect_forbidden [of e st c'] show ?thesis by auto
  next
    case False
    with nd have "forbiddenClients (state_of (step e st x)) = forbiddenClients st"
      by (simp add: step_forbidden_other)
    then show ?thesis by simp
  qed
qed

theorem C5_deny_list_cleared_on_disconnect_witness:
  "forbiddenClients (state_of (step sample_env
       (denied_state\<lparr>channel := Some \<lparr> clients = [tv, phone1], isConnected = True \<rparr>\<rparr>)
       (ClientDisconnected phone2))) = []
   \<and> forbiddenClients (state_of (step sample_env denied_state (ClientDisconnected phone1)))
       = [''p2'', ''p3'']
   \<and> forbiddenClients (state_of (step sample_env (denied_state\<lparr>channel := None\<rparr>)
       (ClientDisconnected phone1))) = [''p2'', ''p3'']
   \<and> forbiddenClients (state_of (step sample_env denied_state (ClientConnected phone1)))
       = [''p2'', ''p3'', ''p1'']"
  using C5_deny_list_cleared_on_disconnect [of
      "denied_state\<lparr>channel := Some \<lparr> clients = [tv, phone1], isConnected = True \<rparr>\<rparr>"
      "\<lparr> clients = [tv, phone1], isConnected = True \<rparr>" sample_env phone2 "Deinit"]
    C5_deny_list_cleared_on_disconnect [of denied_state
      "\<lparr> clients = [tv, phone1, phone2, phone3], isConnected = True \<rparr>" sample_env phone1
      "ClientConnected phone1"]
    C5_deny_list_cleared_on_disconnect [of "denied_state\<lparr>channel := None\<rparr>"
      "\<lparr> clients = [], isConnected = True \<rparr>" sample_env phone1 "Deinit"]
  by (simp add: denied_state_def ready_state_def initial_state_def onClientConnect_def
      send_def andThen_def raiseError_def state_of_def phone1_def)

section \<open>The error operation\<close>

text \<open>
  C6, as stated, fails: the claim has the public \<open>error\<close> operation broadcast without
  raising for every argument value, but a number that is not an index of the
  three-entry table makes \<open>errors[type]\<close> undefined, and reading its \<open>message\<close> raises a
  TypeError before anything is sent. Here \<open>error(3)\<close> on an initialised channel.
\<close>

theorem C6_counterexample:
  "outcome_of (error ready_state (JNum 3)) = Threw TypeError
   \<and> effects_of (error ready_state (JNum 3)) = []"
  by (simp add: outcome_of_def effects_of_def errors_def)

text \<open>
  C6, amended: with the channel initialised, a string argument is broadcast as
  \<open>{message: <the string>, code: 9999}\<close>; the numbers 0, 1 and 2 are broadcast as Not
  connected/500, Seek failed/500 and No such stream/404; a value that is neither a string
  nor a number is broadcast as it is; each of these is one \<open>error\<close> message, the state is
  unchanged and nothing is raised. A number outside 0..2 raises a TypeError and
  broadcasts nothing.
\<close>

theorem C6_error_broadcast:
  "channel st = Some ch \<longrightarrow>
     error st (JStr s) =
       (st, [Publish [JStr ''error'', JObj [(''message'', JStr s), (''code'', JNum 9999)]]],
        Returned JUndefined)
   \<and> error st (JNum 0) =
       (st, [Publish [JStr ''error'',
                      JObj [(''message'', JStr ''Not connected''), (''code'', JNum 500)]]],
        Returned JUndefined)
   \<and> error st (JNum 1) =
       (st, [Publish [JStr ''error'',
                      JObj [(''message'', JStr ''Seek failed''), (''code'', JNum 500)]]],
        Returned JUndefined)
   \<and> error st (JNum 2) =
       (st, [Publish [JStr ''error'',
                      JObj [(''message'', JStr ''No such stream''), (''code'', JNum 404)]]],
        Returned JUndefined)
   \<and> (typeof v \<noteq> ''string'' \<and> typeof v \<noteq> ''number'' \<longrightarrow>
        error st v = (st, [Publish [JStr ''error'', v]], Returned JUndefined))
   \<and> (n < 0 \<or> 2 < n \<longrightarrow> error st (JNum n) = (st, [], Threw TypeError))"
  by (cases v) (auto simp: send_def errors_def)

theorem C6_error_broadcast_witness:
  "channel ready_state = Some \<lparr> clients = [tv], isConnected = False \<rparr>
   \<and> error ready_state (JStr ''General error.'') =
       (ready_state,
        [Publish [JStr ''error'',
                  JObj [(''message'', JStr ''General error.''), (''code'', JNum 9999)]]],
        Returned JUndefined)
   \<and> error ready_state (JNum 2) =
       (ready_state,
        [Publish [JStr ''error'',
                  JObj [(''message'', JStr ''No such stream''), (''code'', JNum 404)]]],
        Returned JUndefined)
   \<and> error ready_state (JObj [(''code'', JStr ''E002-010'')]) =
       (ready_state, [Publish [JStr ''error'', JObj [(''code'', JStr ''E002-010'')]]],
        Returned JUndefined)
   \<and> error ready_state (JNum (- 1)) = (ready_state, [], Threw TypeError)"
  using C6_error_broadcast [of ready_state "\<lparr> clients = [tv], isConnected = False \<rparr>"
      "''General error.''" "JObj [(''code'', JStr ''E002-010'')]" "- 1"]
  by (simp add: ready_state_def)

section \<open>Volume and seek messages\<close>

text \<open>
  C7. A volume message from an admitted client has its \<open>value\<close> field parsed as an integer
  by \<open>parseInt(value, 10)\<close>. When the result is NaN (non-numeric input) nothing happens.
  When the result is a number \<open>r\<close>, the platform volume is set to \<open>|r|\<close>, the platform
  mute to \<open>r < 0\<close>, and exactly one \<open>ms2:volume\<close> notification carrying
  \<open>{volume: |r|, isMute: r < 0}\<close> is dispatched, in that order and with nothing else. The
  message has an effect in no other case, and it never changes the state. In particular
  the payload text that parses to \<open>{value: "-30"}\<close>, whose value \<open>parseInt\<close> reads as -30,
  yields \<open>{volume: 30, isMute: true}\<close>.
\<close>

theorem C7_volume_level_and_mute:
  "admitted st c \<longrightarrow>
     state_of (dispatch e ''volume'' st obj c) = st
   \<and> (effects_of (dispatch e ''volume'' st obj c) \<noteq> []
        \<longleftrightarrow> (\<exists>w r. js_get (parse_payload e obj) ''value'' = Inr w \<and> parseInt10 e w = Inr r
                    \<and> r \<noteq> NaN))
   \<and> (js_get (parse_payload e obj) ''value'' = Inr v \<longrightarrow>
        (parseInt10 e v = Inr NaN \<longrightarrow>
           dispatch e ''volume'' st obj c = (st, [], Returned JUndefined))
      \<and> (parseInt10 e v = Inr r \<longrightarrow> r \<noteq> NaN \<longrightarrow>
           dispatch e ''volume'' st obj c =
             (st,
              [SetVolume (num_abs r), SetMute (num_negative r),
               DocumentDispatchVolume (num_abs r) (num_negative r)],
              Returned JUndefined))
      \<and> (parseInt10 e v = Inr (Finite n) \<longrightarrow>
           dispatch e ''volume'' st obj c =
             (st,
              [SetVolume (Finite \<bar>n\<bar>), SetMute (n < 0),
               DocumentDispatchVolume (Finite \<bar>n\<bar>) (n < 0)],
              Returned JUndefined))
      \<and> (parseInt10 e v = Inl x \<longrightarrow>
           dispatch e ''volume'' st obj c = (st, [], Threw x)))
   \<and> (JSON_parse e s = Some (JObj [(''value'', JStr ''-30'')]) \<longrightarrow>
      parseInt10 e (JStr ''-30'') = Inr (Finite (- 30)) \<longrightarrow>
        dispatch e ''volume'' st (JStr s) c =
          (st,
           [SetVolume (Finite 30), SetMute True, DocumentDispatchVolume (Finite 30) True],
           Returned JUndefined))"
proof (intro impI conjI)
  assume a: "admitted st c"
  have d: "dispatch e ''volume'' st obj' c =
      andThen (onVolume e st (parse_payload e obj')) (\<lambda>st. (st, [], Returned JUndefined))"
    for obj'
    using dispatch_admitted [OF a, of "''volume''" OnVolume] by (simp add: eventCallbacks_def)
  show "state_of (dispatch e ''volume'' st obj c) = st"
    unfolding d state_of_andThen_const
    by (simp add: onVolume_def state_of_def Let_def split: sum.splits)
  show "effects_of (dispatch e ''volume'' st obj c) \<noteq> []
      \<longleftrightarrow> (\<exists>w r. js_get (parse_payload e obj) ''value'' = Inr w \<and> parseInt10 e w = Inr r
                  \<and> r \<noteq> NaN)"
  proof (cases "js_get (parse_payload e obj) ''value''")
    case (Inl x)
    then show ?thesis by (simp add: d onVolume_def andThen_return effects_of_def)
  next
    case w: (Inr w)
    show ?thesis
    proof (cases "parseInt10 e w")
      case (Inl x)
      with w show ?thesis by (simp add: d onVolume_def andThen_return effects_of_def)
    next
      case (Inr r)
      with w show ?thesis
        by (cases r) (simp_all add: d onVolume_def andThen_return effects_of_def Let_def)
    qed
  qed
  { assume s: "JSON_parse e s = Some (JObj [(''value'', JStr ''-30'')])"
      and p: "parseInt10 e (JStr ''-30'') = Inr (Finite (- 30))"
    from s p show "dispatch e ''volume'' st (JStr s) c =
          (st,
           [SetVolume (Finite 30), SetMute True, DocumentDispatchVolume (Finite 30) True],
           Returned JUndefined)"
      by (simp add: d onVolume_def andThen_return parse_payload_def Let_def) }
  assume v: "js_get (parse_payload e obj) ''value'' = Inr v"
  { assume "parseInt10 e v = Inr NaN"
    with v show "dispatch e ''volume'' st obj c = (st, [], Returned JUndefined)"
      by (simp add: d onVolume_def andThen_return) }
  { assume "parseInt10 e v = Inr r" "r \<noteq> NaN"
    with v show "dispatch e ''volume'' st obj c =
          (st,
           [SetVolume (num_abs r), SetMute (num_negative r),
            DocumentDispatchVolume (num_abs r) (num_negative r)],
           Returned JUndefined)"
      by (cases r) (simp_all add: d onVolume_def andThen_return Let_def) }
  { assume "parseInt10 e v = Inr (Finite n)"
    with v show "dispatch e ''volume'' st obj c =
          (st,
           [SetVolume (Finite \<bar>n\<bar>), SetMute (n < 0),
            DocumentDispatchVolume (Finite \<bar>n\<bar>) (n < 0)],
           Returned JUndefined)"
      by (simp add: d onVolume_def andThen_return Let_def) }
  { assume "parseInt10 e v = Inl x"
    with v show "dispatch e ''volume'' st obj c = (st, [], Threw x)"
      by (simp add: d onVolume_def andThen_return) }
qed

theorem C7_volume_level_and_mute_witness:
  "admitted ready_state phone1
   \<and> dispatch sample_env ''volume'' ready_state (JStr volume_text) phone1 =
       (ready_state,
        [SetVolume (Finite 30), SetMute True, DocumentDispatchVolume (Finite 30) True],
        Returned JUndefined)
   \<and> dispatch sample_env ''volume'' ready_state (JObj [(''value'', JStr ''loud'')]) phone1 =
       (ready_state, [], Returned JUndefined)"
  using C7_volume_level_and_mute [of ready_state phone1 sample_env "JStr volume_text"
      "JStr ''-30''" "Finite (- 30)" "- 30" TypeError volume_text]
    C7_volume_level_and_mute [of ready_state phone1 sample_env "JObj [(''value'', JStr ''loud'')]"
      "JStr ''loud''" NaN 0 TypeError volume_text]
  by (simp add: admitted_def isClientAllowed_def ready_state_def initial_state_def
      parse_payload_def sample_env_def sample_parse_def sample_parseInt_def volume_text_def)

text \<open>
  C8. A seek message from an admitted client dispatches an \<open>ms2:seek\<close> notification if and
  only if the parsed payload has a truthy \<open>position\<close>, and the notification then carries
  \<open>{position}\<close>; a payload whose \<open>position\<close> is 0, or any other falsy value, dispatches
  nothing (in particular the payload text that parses to \<open>{position: 0}\<close>).
\<close>

theorem C8_seek_truthy_position:
  "admitted st c \<longrightarrow>
     ((\<exists>d. DocumentDispatch ''ms2:seek'' d \<in> set (effects_of (dispatch e ''seek'' st obj c)))
        \<longleftrightarrow> (\<exists>p. js_get (parse_payload e obj) ''position'' = Inr p \<and> truthy p))
   \<and> (js_get (parse_payload e obj) ''position'' = Inr position \<longrightarrow>
        dispatch e ''seek'' st obj c =
          (st,
           (if truthy position
            then [DocumentDispatch ''ms2:seek'' (JObj [(''position'', position)])] else []),
           Returned JUndefined))
   \<and> (JSON_parse e s = Some (JObj [(''position'', JNum 0)]) \<longrightarrow>
        dispatch e ''seek'' st (JStr s) c = (st, [], Returned JUndefined))"
proof (intro impI conjI)
  assume a: "admitted st c"
  have d: "dispatch e ''seek'' st obj' c =
      andThen (onSeek st (parse_payload e obj')) (\<lambda>st. (st, [], Returned JUndefined))" for obj'
    using dispatch_admitted [OF a, of "''seek''" OnSeek] by (simp add: eventCallbacks_def)
  show "(\<exists>d. DocumentDispatch ''ms2:seek'' d \<in> set (effects_of (dispatch e ''seek'' st obj c)))
        \<longleftrightarrow> (\<exists>p. js_get (parse_payload e obj) ''position'' = Inr p \<and> truthy p)"
    by (cases "js_get (parse_payload e obj) ''position''")
       (simp_all add: d onSeek_def andThen_return effects_of_def)
  { assume "js_get (parse_payload e obj) ''position'' = Inr position"
    then show "dispatch e ''seek'' st obj c =
          (st,
           (if truthy position
            then [DocumentDispatch ''ms2:seek'' (JObj [(''position'', position)])] else []),
           Returned JUndefined)"
      by (simp add: d onSeek_def andThen_return) }
  { assume "JSON_parse e s = Some (JObj [(''position'', JNum 0)])"
    then show "dispatch e ''seek'' st (JStr s) c = (st, [], Returned JUndefined)"
      by (simp add: d onSeek_def andThen_return parse_payload_def) }
qed

theorem C8_seek_truthy_position_witness:
  "admitted ready_state phone1
   \<and> dispatch sample_env ''seek'' ready_state (JObj [(''position'', JNum 5000)]) phone1 =
       (ready_state, [DocumentDispatch ''ms2:seek'' (JObj [(''position'', JNum 5000)])],
        Returned JUndefined)
   \<and> dispatch sample_env ''seek'' ready_state (JStr seek_text) phone1 =
       (ready_state, [], Returned JUndefined)"
  using C8_seek_truthy_position [of ready_state phone1 sample_env
      "JObj [(''position'', JNum 5000)]" "JNum 5000" seek_text]
  by (simp add: admitted_def isClientAllowed_def ready_state_def initial_state_def
      parse_payload_def sample_env_def sample_parse_def seek_text_def volume_text_def)

section \<open>Registering custom handlers\<close>

text \<open>
  C9. For each of the nine reserved names (keydown, seek, volume, play, reclaim, connect,
  disconnect, clientConnect, clientDisconnect) the public \<open>on\<close> operation logs, returns
  false and binds nothing on the channel. For any other event name, with the channel
  initialised, it binds exactly one handler under that name: the supplied one when it is
  a function, a logging no-op otherwise.
\<close>

theorem C9_on_reserved_names:
  "(name \<in> {''keydown'', ''seek'', ''volume'', ''play'', ''reclaim'',
             ''connect'', ''disconnect'', ''clientConnect'', ''clientDisconnect''} \<longrightarrow>
      on st (JStr name) callback = (st, [Console ''debug''], Returned (JBool False)))
   \<and> (eventName \<notin> JStr ` {''keydown'', ''seek'', ''volume'', ''play'', ''reclaim'',
             ''connect'', ''disconnect'', ''clientConnect'', ''clientDisconnect''} \<longrightarrow>
       channel st = Some ch \<longrightarrow>
      on st eventName callback =
        (st, [ChannelOn eventName
               (if typeof callback = ''function'' then UserHandler callback
                else LoggingNoop eventName)],
         Returned JUndefined))"
proof -
  have r: "set restrictedEvents = JStr ` {''keydown'', ''seek'', ''volume'', ''play'', ''reclaim'',
             ''connect'', ''disconnect'', ''clientConnect'', ''clientDisconnect''}"
    by (simp add: restrictedEvents_def eventCallbacks_def insert_commute)
  show ?thesis
    unfolding on_def indexOf_present r by auto
qed

theorem C9_on_reserved_names_witness:
  "on ready_state (JStr ''play'') (JFun 1) = (ready_state, [Console ''debug''], Returned (JBool False))
   \<and> on ready_state (JStr ''myChannelMsg'') (JFun 1) =
       (ready_state, [ChannelOn (JStr ''myChannelMsg'') (UserHandler (JFun 1))], Returned JUndefined)
   \<and> on ready_state (JStr ''myChannelMsg'') JUndefined =
       (ready_state, [ChannelOn (JStr ''myChannelMsg'') (LoggingNoop (JStr ''myChannelMsg''))],
        Returned JUndefined)"
  using C9_on_reserved_names [of "''play''" ready_state "JFun 1" "JStr ''myChannelMsg''"
      "\<lparr> clients = [tv], isConnected = False \<rparr>"]
    C9_on_reserved_names [of "''play''" ready_state JUndefined "JStr ''myChannelMsg''"
      "\<lparr> clients = [tv], isConnected = False \<rparr>"]
  by (simp add: ready_state_def)

section \<open>A connect over the limit\<close>

text \<open>
  C10. When a client connects while \<open>channel.clients\<close> has more entries than
  \<open>maxClients\<close>, the handler publishes \<open>ready\<close>, then the 403 error to that client, and
  appends the client id to the deny-list; it calls no registered connect callback, and
  it leaves the current-video id, the earlier deny-list entries and the rest of the
  state as they were.
\<close>

theorem C10_over_limit_connect:
  "channel st = Some ch \<longrightarrow> maxClients st < int (length (clients ch)) \<longrightarrow>
     onClientConnect e st c =
       (st\<lparr>forbiddenClients := forbiddenClients st @ [client_id c]\<rparr>,
        [Publish [JStr ''ready''], access_denied c],
        Returned JUndefined)
     \<and> videoId (state_of (onClientConnect e st c)) = videoId st
     \<and> take (length (forbiddenClients st)) (forbiddenClients (state_of (onClientConnect e st c)))
         = forbiddenClients st
     \<and> (\<forall>k c'. CallClientCallback k c' \<notin> set (effects_of (onClientConnect e st c)))"
  by (simp add: onClientConnect_over state_of_def effects_of_def access_denied_def)

theorem C10_over_limit_connect_witness:
  "channel denied_state = Some \<lparr> clients = [tv, phone1, phone2, phone3], isConnected = True \<rparr>
   \<and> maxClients denied_state < 4
   \<and> onClientConnect sample_env (denied_state\<lparr>forbiddenClients := [''p2'']\<rparr>) phone3 =
       (denied_state\<lparr>forbiddenClients := [''p2'', ''p3'']\<rparr>,
        [Publish [JStr ''ready''], access_denied phone3], Returned JUndefined)"
  using C10_over_limit_connect [of "denied_state\<lparr>forbiddenClients := [''p2'']\<rparr>"
      "\<lparr> clients = [tv, phone1, phone2, phone3], isConnected = True \<rparr>" sample_env phone3]
  by (simp add: denied_state_def ready_state_def initial_state_def phone3_def)

end
